theory Spec2Isabelle
  imports Main
begin

section \<open>Connection lifecycle of app/db/connect.py\<close>

text \<open>
  The module talks to three libraries: pyodbc (driver discovery), SQLAlchemy (engine,
  session factory, sessions) and the standard library (sleep, print). Every call into
  them is recorded, in order, in a trace of events, and what such a call returns or
  raises is given by an environment whose answers may depend on the trace so far.
  The methods of \<^verbatim>\<open>DatabaseConnection\<close> become functions that take the object and
  the trace and return the outcome, the updated object and the extended trace.
\<close>

subsection \<open>Exceptions\<close>

text \<open>
  \<^verbatim>\<open>DatabaseConnectionError(message)\<close> of app/db/exceptions.py, with the
  \<^verbatim>\<open>__cause__\<close> that \<^verbatim>\<open>raise ... from e\<close> attaches. \<^verbatim>\<open>OperationalError\<close> is a subclass
  of \<^verbatim>\<open>SQLAlchemyError\<close>; \<open>SQLAlchemyError\<close> stands for every other subclass.
  \<open>OtherException cls msg\<close> is any other subclass of \<^verbatim>\<open>Exception\<close> (a ValueError of
  the caller, say) and \<open>BaseException cls msg\<close> one that derives from
  \<^verbatim>\<open>BaseException\<close> only (KeyboardInterrupt, SystemExit). The string is what
  \<^verbatim>\<open>str(e)\<close> gives.
\<close>

datatype exn =
    DatabaseConnectionError string "exn option"
  | OperationalError string
  | SQLAlchemyError string
  | OtherException string string
  | BaseException string string

fun str_exn :: "exn \<Rightarrow> string" where
  "str_exn (DatabaseConnectionError message cause) = message"
| "str_exn (OperationalError m) = m"
| "str_exn (SQLAlchemyError m) = m"
| "str_exn (OtherException cls m) = m"
| "str_exn (BaseException cls m) = m"

text \<open>What \<^verbatim>\<open>except Exception\<close> catches.\<close>

fun is_Exception :: "exn \<Rightarrow> bool" where
  "is_Exception (BaseException cls m) = False"
| "is_Exception e = True"

text \<open>What \<^verbatim>\<open>except (OperationalError, SQLAlchemyError)\<close> catches.\<close>

fun is_SQLAlchemyError :: "exn \<Rightarrow> bool" where
  "is_SQLAlchemyError (OperationalError m) = True"
| "is_SQLAlchemyError (SQLAlchemyError m) = True"
| "is_SQLAlchemyError e = False"

subsection \<open>Handles, events and the environment\<close>

type_synonym Engine = nat
type_synonym Session = nat

datatype sessionmaker = Sessionmaker Engine

datatype event =
    Drivers_called
  | Create_engine string int
  | Sessionmaker_bind Engine
  | Engine_connect Engine
  | Engine_dispose Engine
  | Sleep nat
  | Print string
  | Session_new sessionmaker
  | Commit Session
  | Rollback Session
  | Close Session

text \<open>
  \<open>pyodbc_drivers\<close> is \<^verbatim>\<open>pyodbc.drivers()\<close>; \<open>iter_seed\<close> fixes the iteration order of
  the frozenset of usable drivers; \<open>create_engine\<close> takes the connection string and the
  timeout of \<^verbatim>\<open>connect_args\<close>; \<open>engine_connect\<close> is the probe
  \<^verbatim>\<open>with engine.connect(): ...\<close>; \<open>sessionmaker_call\<close> is the call of the session factory.
  For a call that returns nothing, \<open>None\<close> is a normal return and \<open>Some e\<close> raises \<open>e\<close>.
  \<open>engine_dispose\<close> is \<^verbatim>\<open>engine.dispose()\<close>. \<^verbatim>\<open>sleep\<close>, \<^verbatim>\<open>print\<close> and the constructor
  \<^verbatim>\<open>sessionmaker(bind=engine)\<close> are taken to return normally: they are recorded in the
  trace and have no entry here.
\<close>

record Env =
  pyodbc_drivers :: "event list \<Rightarrow> string list"
  iter_seed :: nat
  create_engine :: "event list \<Rightarrow> string \<Rightarrow> int \<Rightarrow> exn + Engine"
  engine_connect :: "event list \<Rightarrow> Engine \<Rightarrow> exn option"
  engine_dispose :: "event list \<Rightarrow> Engine \<Rightarrow> exn option"
  sessionmaker_call :: "event list \<Rightarrow> sessionmaker \<Rightarrow> exn + Session"
  session_commit :: "event list \<Rightarrow> Session \<Rightarrow> exn option"
  session_rollback :: "event list \<Rightarrow> Session \<Rightarrow> exn option"
  session_close :: "event list \<Rightarrow> Session \<Rightarrow> exn option"

subsection \<open>Formatting integers as Python's str does\<close>

fun str_nat :: "nat \<Rightarrow> string" where
  "str_nat n =
     (if n < 10 then [''0123456789'' ! n]
      else str_nat (n div 10) @ [''0123456789'' ! (n mod 10)])"

declare str_nat.simps [simp del]

definition str_int :: "int \<Rightarrow> string" where
  "str_int i = (if i < 0 then ''-'' @ str_nat (nat (- i)) else str_nat (nat i))"

subsection \<open>The class DatabaseConnection\<close>

record DatabaseConnection =
  db :: string
  host :: string
  port :: int
  timeout :: int
  engine :: "Engine option"
  session_maker :: "sessionmaker option"

definition SUPPORTED_DRIVERS :: "string list" where
  "SUPPORTED_DRIVERS =
     [''ODBC Driver 17 for SQL Server'',
      ''ODBC Driver 13 for SQL Server'',
      ''SQL Server Native Client 11.0'']"

text \<open>\<^verbatim>\<open>__init__\<close>: the four parameters are stored, engine and session factory are None.\<close>

definition new_DatabaseConnection :: "string \<Rightarrow> string \<Rightarrow> int \<Rightarrow> int \<Rightarrow> DatabaseConnection" where
  "new_DatabaseConnection d h p t =
     \<lparr>db = d, host = h, port = p, timeout = t, engine = None, session_maker = None\<rparr>"

text \<open>
  \<^verbatim>\<open>_get_available_driver\<close>: the supported drivers that pyodbc lists; the error when
  there is none, otherwise the first one in the set's iteration order.
\<close>

definition get_available_driver :: "Env \<Rightarrow> event list \<Rightarrow> (exn + string) \<times> event list" where
  "get_available_driver env w =
     (let available_drivers = filter (\<lambda>d. d \<in> set (pyodbc_drivers env w)) SUPPORTED_DRIVERS;
          w1 = w @ [Drivers_called]
      in if available_drivers = []
         then (Inl (DatabaseConnectionError ''No supported ODBC driver found.'' None), w1)
         else (Inr (available_drivers ! (iter_seed env mod length available_drivers)), w1))"

definition max_retries :: nat where "max_retries = 3"
definition init_delay :: nat where "init_delay = 1"
definition backoff_factor :: nat where "backoff_factor = 2"

text \<open>Line 79: the delay before the retry that follows the attempt with index \<open>attempt\<close>.\<close>

definition delay :: "nat \<Rightarrow> nat" where
  "delay attempt = init_delay * backoff_factor ^ attempt"

definition connection_string :: "DatabaseConnection \<Rightarrow> string \<Rightarrow> string" where
  "connection_string self driver =
     ''mssql+pyodbc://'' @ host self @ '':'' @ str_int (port self) @ ''/'' @ db self @ ''?''
     @ ''driver='' @ driver @ ''&trusted_connection=yes''"

definition connected_message :: "DatabaseConnection \<Rightarrow> string" where
  "connected_message self =
     ''INFO: Connection to database successful. Host: '' @ host self
     @ '', Port: '' @ str_int (port self) @ '', Database: '' @ db self"

text \<open>
  The body of the \<^verbatim>\<open>try\<close> of \<^verbatim>\<open>_init_connection\<close>, lines 56 to 75: \<open>Inr ()\<close> is the
  \<^verbatim>\<open>return\<close>, \<open>Inl e\<close> an exception leaving the block. The engine and the session
  factory are assigned before the probe.
\<close>

definition try_connect ::
  "Env \<Rightarrow> DatabaseConnection \<Rightarrow> event list \<Rightarrow> (exn + unit) \<times> DatabaseConnection \<times> event list" where
  "try_connect env self w =
     (case get_available_driver env w of
        (Inl e, w1) \<Rightarrow> (Inl e, self, w1)
      | (Inr driver, w1) \<Rightarrow>
          (let cs = connection_string self driver;
               w2 = w1 @ [Create_engine cs (timeout self)]
           in case create_engine env w1 cs (timeout self) of
                Inl e \<Rightarrow> (Inl e, self, w2)
              | Inr eng \<Rightarrow>
                  (let self1 = self\<lparr>engine := Some eng\<rparr>;
                       self2 = self1\<lparr>session_maker := Some (Sessionmaker eng)\<rparr>;
                       w3 = w2 @ [Sessionmaker_bind eng]
                   in case engine_connect env w3 eng of
                        Some e \<Rightarrow> (Inl e, self2, w3 @ [Engine_connect eng])
                      | None \<Rightarrow>
                          (Inr (), self2,
                           w3 @ [Engine_connect eng, Print (connected_message self2)]))))"

definition retry_warning :: "nat \<Rightarrow> nat \<Rightarrow> string" where
  "retry_warning attempt seconds =
     ''WARNING: Connection attempt '' @ str_nat (attempt + 1)
     @ '' failed. Retrying in '' @ str_nat seconds @ '' seconds''"

definition failed_message :: string where
  "failed_message =
     ''ERROR: Failed to connect to database after '' @ str_nat max_retries @ '' attempts.''"

text \<open>
  The loop \<^verbatim>\<open>for attempt in range(_max_retries)\<close>, over the list of the attempt indices
  still to run. Leaving the loop without a return is Python's implicit \<^verbatim>\<open>return None\<close>.
\<close>

fun init_loop ::
  "Env \<Rightarrow> nat list \<Rightarrow> DatabaseConnection \<Rightarrow> event list
     \<Rightarrow> (exn + unit) \<times> DatabaseConnection \<times> event list" where
  "init_loop env [] self w = (Inr (), self, w)"
| "init_loop env (attempt # rest) self w =
     (case try_connect env self w of
        (Inr u, self1, w1) \<Rightarrow> (Inr (), self1, w1)
      | (Inl e, self1, w1) \<Rightarrow>
          if is_SQLAlchemyError e then
            if attempt < max_retries - 1 then
              init_loop env rest self1
                (w1 @ [Print (retry_warning attempt (delay attempt)), Sleep (delay attempt)])
            else
              (Inl (DatabaseConnectionError
                      (''Failed to connect to database: '' @ str_exn e) (Some e)),
               self1, w1 @ [Print failed_message])
          else (Inl e, self1, w1))"

definition init_connection ::
  "Env \<Rightarrow> DatabaseConnection \<Rightarrow> event list \<Rightarrow> (exn + unit) \<times> DatabaseConnection \<times> event list" where
  "init_connection env self w = init_loop env [0..<max_retries] self w"

subsection \<open>The session scope\<close>

text \<open>
  The \<^verbatim>\<open>finally\<close> of \<^verbatim>\<open>get_session\<close>: the session is closed; \<open>pending\<close> is the exception
  on its way out, which an exception of \<^verbatim>\<open>close()\<close> replaces.
\<close>

definition session_finally ::
  "Env \<Rightarrow> Session \<Rightarrow> exn option \<Rightarrow> event list \<Rightarrow> exn option \<times> event list" where
  "session_finally env session pending w =
     (case session_close env w session of
        Some e \<Rightarrow> (Some e, w @ [Close session])
      | None \<Rightarrow> (pending, w @ [Close session]))"

text \<open>
  An exception \<open>e\<close> raised inside the \<^verbatim>\<open>try\<close> (by the caller's block or by the commit):
  \<^verbatim>\<open>except Exception\<close> rolls back, prints and re-raises; then the \<^verbatim>\<open>finally\<close> runs.
\<close>

definition session_except ::
  "Env \<Rightarrow> Session \<Rightarrow> exn \<Rightarrow> event list \<Rightarrow> exn option \<times> event list" where
  "session_except env session e w =
     (if is_Exception e then
        (case session_rollback env w session of
           Some e' \<Rightarrow> session_finally env session (Some e') (w @ [Rollback session])
         | None \<Rightarrow>
             session_finally env session (Some e)
               (w @ [Rollback session,
                     Print (''ERROR: Database session failed to commit: '' @ str_exn e)]))
      else session_finally env session (Some e) w)"

text \<open>
  The \<^verbatim>\<open>try\<close> statement of \<^verbatim>\<open>get_session\<close>, lines 102 to 110, around the caller's
  block. The block is \<open>body\<close>: it gets the session and the trace and returns the
  exception it raised, if any, and the trace with whatever it did.
\<close>

definition session_scope ::
  "Env \<Rightarrow> (Session \<Rightarrow> event list \<Rightarrow> exn option \<times> event list)
     \<Rightarrow> Session \<Rightarrow> event list \<Rightarrow> exn option \<times> event list" where
  "session_scope env body session w =
     (case body session w of
        (Some e, w1) \<Rightarrow> session_except env session e w1
      | (None, w1) \<Rightarrow>
          (case session_commit env w1 session of
             Some e \<Rightarrow> session_except env session e (w1 @ [Commit session])
           | None \<Rightarrow> session_finally env session None (w1 @ [Commit session])))"

text \<open>
  \<^verbatim>\<open>with self.get_session() as session: body\<close>: the check of the session factory and
  the call of the factory come before the \<^verbatim>\<open>try\<close>.
\<close>

definition get_session ::
  "Env \<Rightarrow> (Session \<Rightarrow> event list \<Rightarrow> exn option \<times> event list)
     \<Rightarrow> DatabaseConnection \<Rightarrow> event list \<Rightarrow> exn option \<times> event list" where
  "get_session env body self w =
     (case session_maker self of
        None \<Rightarrow> (Some (DatabaseConnectionError ''Database connection not initialised.'' None), w)
      | Some sm \<Rightarrow>
          (case sessionmaker_call env w sm of
             Inl e \<Rightarrow> (Some e, w @ [Session_new sm])
           | Inr session \<Rightarrow> session_scope env body session (w @ [Session_new sm])))"

subsection \<open>Closing, and the factory get_connection\<close>

text \<open>
  \<^verbatim>\<open>_close\<close>: only the engine is disposed and reset. When \<^verbatim>\<open>dispose()\<close> raises, the
  exception leaves \<^verbatim>\<open>_close\<close> before the engine is reset and before the message is printed.
\<close>

definition close ::
  "Env \<Rightarrow> DatabaseConnection \<Rightarrow> event list \<Rightarrow> exn option \<times> DatabaseConnection \<times> event list" where
  "close env self w =
     (case engine self of
        None \<Rightarrow> (None, self, w)
      | Some eng \<Rightarrow>
          (case engine_dispose env w eng of
             Some e \<Rightarrow> (Some e, self, w @ [Engine_dispose eng])
           | None \<Rightarrow>
               (None, self\<lparr>engine := None\<rparr>,
                w @ [Engine_dispose eng, Print ''INFO: Database connection closed.''])))"

text \<open>
  \<^verbatim>\<open>with DatabaseConnection.get_connection(...) as db: body\<close>. The caller's block gets
  the connection object, which it may use and change, and the trace; it returns the
  exception it raised, if any. \<^verbatim>\<open>_init_connection\<close> is called before the \<^verbatim>\<open>try\<close>;
  \<open>unexpected_error_report\<close> is what the \<^verbatim>\<open>except Exception\<close> clause prints before it
  re-raises, and the \<^verbatim>\<open>finally\<close> closes the connection: an exception of \<^verbatim>\<open>_close\<close>
  replaces the one on its way out.
\<close>

definition unexpected_error_report :: "exn option \<Rightarrow> event list" where
  "unexpected_error_report r =
     (case r of
        None \<Rightarrow> []
      | Some e \<Rightarrow>
          if is_Exception e
          then [Print (''ERROR: Unexpected error occurred while connecting to database: ''
                       @ str_exn e)]
          else [])"

definition get_connection ::
  "Env \<Rightarrow> (DatabaseConnection \<Rightarrow> event list \<Rightarrow> exn option \<times> DatabaseConnection \<times> event list)
     \<Rightarrow> string \<Rightarrow> string \<Rightarrow> int \<Rightarrow> int \<Rightarrow> event list
     \<Rightarrow> exn option \<times> DatabaseConnection \<times> event list" where
  "get_connection env body d h p t w =
     (let connection = new_DatabaseConnection d h p t
      in case init_connection env connection w of
           (Inl e, c1, w1) \<Rightarrow> (Some e, c1, w1)
         | (Inr u, c1, w1) \<Rightarrow>
             (case body c1 w1 of
                (r, c2, w2) \<Rightarrow>
                  (case close env c2 (w2 @ unexpected_error_report r) of
                     (Some e, c3, w3) \<Rightarrow> (Some e, c3, w3)
                   | (None, c3, w3) \<Rightarrow> (r, c3, w3))))"

subsection \<open>Reading a trace\<close>

text \<open>
  The number of attempts started (each begins with the call of \<^verbatim>\<open>pyodbc.drivers()\<close>), the
  number of \<^verbatim>\<open>create_engine\<close> calls, the engines that \<^verbatim>\<open>create_engine\<close> returned (each is
  passed to \<^verbatim>\<open>sessionmaker\<close> at once), the durations slept, and the engines on which
  \<^verbatim>\<open>dispose()\<close> was called, in order.
\<close>

definition attempts_started :: "event list \<Rightarrow> nat" where
  "attempts_started w =
     length (filter (\<lambda>ev. case ev of Drivers_called \<Rightarrow> True | _ \<Rightarrow> False) w)"

definition engines_created :: "event list \<Rightarrow> Engine list" where
  "engines_created w = concat (map (\<lambda>ev. case ev of Sessionmaker_bind eng \<Rightarrow> [eng] | _ \<Rightarrow> []) w)"

definition connection_attempts :: "event list \<Rightarrow> nat" where
  "connection_attempts w =
     length (filter (\<lambda>ev. case ev of Create_engine cs t \<Rightarrow> True | _ \<Rightarrow> False) w)"

definition sleeps :: "event list \<Rightarrow> nat list" where
  "sleeps w = concat (map (\<lambda>ev. case ev of Sleep d \<Rightarrow> [d] | _ \<Rightarrow> []) w)"

definition disposals :: "event list \<Rightarrow> Engine list" where
  "disposals w = concat (map (\<lambda>ev. case ev of Engine_dispose eng \<Rightarrow> [eng] | _ \<Rightarrow> []) w)"

subsection \<open>Concrete environments\<close>

text \<open>
  A host with one supported driver on which every library call succeeds; the engine and
  the session are the handles 0. The other environments used below differ from it in
  one or two answers.
\<close>

definition env_ok :: Env where
  "env_ok =
     \<lparr>pyodbc_drivers = (\<lambda>w. [''ODBC Driver 17 for SQL Server'']),
      iter_seed = 0,
      create_engine = (\<lambda>w cs t. Inr 0),
      engine_connect = (\<lambda>w eng. None),
      engine_dispose = (\<lambda>w eng. None),
      sessionmaker_call = (\<lambda>w sm. Inr 0),
      session_commit = (\<lambda>w s. None),
      session_rollback = (\<lambda>w s. None),
      session_close = (\<lambda>w s. None)\<rparr>"

text \<open>A host on which pyodbc lists no supported driver.\<close>

definition env_no_driver :: Env where
  "env_no_driver = env_ok\<lparr>pyodbc_drivers := (\<lambda>w. [''Unsupported Driver''])\<rparr>"

text \<open>\<^verbatim>\<open>create_engine\<close> raises on every call, as in test_init_connection_all_retries_fail.\<close>

definition env_create_fails :: Env where
  "env_create_fails = env_ok\<lparr>create_engine := (\<lambda>w cs t. Inl (OperationalError ''mock error''))\<rparr>"

text \<open>
  \<^verbatim>\<open>create_engine\<close> raises on its first three calls and would return an engine on a
  fourth.
\<close>

definition env_fail3 :: Env where
  "env_fail3 =
     env_ok\<lparr>create_engine :=
       (\<lambda>w cs t. if connection_attempts w < 3 then Inl (OperationalError ''mock error'')
                  else Inr 0)\<rparr>"

text \<open>\<^verbatim>\<open>engine.dispose()\<close> raises.\<close>

definition env_dispose_fails :: Env where
  "env_dispose_fails = env_ok\<lparr>engine_dispose := (\<lambda>w eng. Some (OperationalError ''dispose failed''))\<rparr>"

text \<open>The engine is created, and the probe \<^verbatim>\<open>engine.connect()\<close> raises on every call.\<close>

definition env_probe_fails :: Env where
  "env_probe_fails = env_ok\<lparr>engine_connect := (\<lambda>w eng. Some (OperationalError ''mock error''))\<rparr>"

text \<open>Sessions whose commit raises, whose rollback raises, and whose commit and rollback both raise.\<close>

definition env_commit_fails :: Env where
  "env_commit_fails = env_ok\<lparr>session_commit := (\<lambda>w s. Some (OperationalError ''commit failed''))\<rparr>"

definition env_rollback_fails :: Env where
  "env_rollback_fails = env_ok\<lparr>session_rollback := (\<lambda>w s. Some (OperationalError ''rollback failed''))\<rparr>"

definition env_commit_rollback_fail :: Env where
  "env_commit_rollback_fail =
     env_commit_fails\<lparr>session_rollback := (\<lambda>w s. Some (OperationalError ''rollback failed''))\<rparr>"

text \<open>Callers' blocks: one that does nothing and one that raises ValueError("Test error").\<close>

definition session_pass :: "Session \<Rightarrow> event list \<Rightarrow> exn option \<times> event list" where
  "session_pass session w = (None, w)"

definition session_raise :: "Session \<Rightarrow> event list \<Rightarrow> exn option \<times> event list" where
  "session_raise session w = (Some (OtherException ''ValueError'' ''Test error''), w)"

definition connection_pass ::
  "DatabaseConnection \<Rightarrow> event list \<Rightarrow> exn option \<times> DatabaseConnection \<times> event list" where
  "connection_pass c w = (None, c, w)"

definition connection_raise ::
  "DatabaseConnection \<Rightarrow> event list \<Rightarrow> exn option \<times> DatabaseConnection \<times> event list" where
  "connection_raise c w = (Some (OtherException ''ValueError'' ''Test error''), c, w)"

text \<open>The connection object of the tests, before and after a successful initialisation.\<close>

definition test_connection :: DatabaseConnection where
  "test_connection = new_DatabaseConnection ''test_db'' ''test_host'' 1433 30"

definition connected_connection :: DatabaseConnection where
  "connected_connection =
     test_connection\<lparr>engine := Some 0, session_maker := Some (Sessionmaker 0)\<rparr>"

text \<open>What one attempt on \<open>test_connection\<close> adds to the trace when \<^verbatim>\<open>create_engine\<close> raises.\<close>

definition failed_attempt_events :: "event list" where
  "failed_attempt_events =
     [Drivers_called,
      Create_engine (connection_string test_connection ''ODBC Driver 17 for SQL Server'')
        (timeout test_connection)]"

section \<open>Connection attempts\<close>

text \<open>The trace readers distribute over the concatenation of traces.\<close>

lemma started_append [simp]:
  "attempts_started (u @ v) = attempts_started u + attempts_started v"
  by (simp add: attempts_started_def)

lemma attempts_append [simp]:
  "connection_attempts (u @ v) = connection_attempts u + connection_attempts v"
  by (simp add: connection_attempts_def)

lemma created_append [simp]: "engines_created (u @ v) = engines_created u @ engines_created v"
  by (simp add: engines_created_def)

lemma sleeps_append [simp]: "sleeps (u @ v) = sleeps u @ sleeps v"
  by (simp add: sleeps_def)

lemma disposals_append [simp]: "disposals (u @ v) = disposals u @ disposals v"
  by (simp add: disposals_def)

lemma attempts_list: "[0..<max_retries] = [0, 1, 2]"
  by (simp add: max_retries_def upt_rec)

lemma delay_power: "delay a = 2 ^ a"
  by (simp add: delay_def init_delay_def backoff_factor_def)

text \<open>
  One attempt: what it does when no driver is found, the ways it can end, what it adds
  to the trace, and what it does to the object.
\<close>

lemma try_connect_no_driver:
  assumes "set (pyodbc_drivers env w) \<inter> set SUPPORTED_DRIVERS = {}"
  shows "try_connect env self w =
           (Inl (DatabaseConnectionError ''No supported ODBC driver found.'' None),
            self, w @ [Drivers_called])"
proof -
  have "filter (\<lambda>d. d \<in> set (pyodbc_drivers env w)) SUPPORTED_DRIVERS = []"
    using assms by (auto simp: filter_empty_conv)
  then show ?thesis
    by (simp add: try_connect_def get_available_driver_def)
qed

lemma try_connect_cases:
  assumes "try_connect env self w = (r, self1, w1)"
  shows "(self1 = self \<and> (\<exists>e. r = Inl e)
          \<and> (w1 = w @ [Drivers_called]
              \<or> (\<exists>cs. w1 = w @ [Drivers_called, Create_engine cs (timeout self)])))
       \<or> (\<exists>eng cs. self1 = self\<lparr>engine := Some eng, session_maker := Some (Sessionmaker eng)\<rparr>
             \<and> ((\<exists>e. r = Inl e)
                   \<and> w1 = w @ [Drivers_called, Create_engine cs (timeout self),
                               Sessionmaker_bind eng, Engine_connect eng]
                 \<or> r = Inr ()
                   \<and> (\<exists>m. w1 = w @ [Drivers_called, Create_engine cs (timeout self),
                                     Sessionmaker_bind eng, Engine_connect eng, Print m])))"
proof (cases "get_available_driver env w")
  case (Pair d w0)
  then have w0: "w0 = w @ [Drivers_called]"
    by (auto simp: get_available_driver_def Let_def split: if_splits)
  show ?thesis
  proof (cases d)
    case (Inl e)
    then show ?thesis using assms Pair w0 by (auto simp: try_connect_def)
  next
    case (Inr driver)
    show ?thesis
    proof (cases "create_engine env w0 (connection_string self driver) (timeout self)")
      case (Inl e)
      then show ?thesis using assms Pair w0 Inr by (simp add: try_connect_def Let_def) blast
    next
      case eng: (Inr eng)
      show ?thesis
      proof (cases "engine_connect env
                      (w0 @ [Create_engine (connection_string self driver) (timeout self),
                             Sessionmaker_bind eng]) eng")
        case None
        then show ?thesis
          using assms Pair w0 Inr eng by (simp add: try_connect_def Let_def) blast
      next
        case (Some e)
        then show ?thesis
          using assms Pair w0 Inr eng by (simp add: try_connect_def Let_def) blast
      qed
    qed
  qed
qed

lemma try_connect_trace:
  assumes "try_connect env self w = (r, self1, w1)"
  shows "attempts_started w1 = attempts_started w + 1"
    and "sleeps w1 = sleeps w" and "disposals w1 = disposals w"
    and "\<exists>rest. w1 = w @ Drivers_called # rest"
proof -
  note c = try_connect_cases [OF assms]
  show "attempts_started w1 = attempts_started w + 1"
    using c by (elim disjE conjE exE) (simp_all add: attempts_started_def)
  show "sleeps w1 = sleeps w"
    using c by (elim disjE conjE exE) (simp_all add: sleeps_def)
  show "disposals w1 = disposals w"
    using c by (elim disjE conjE exE) (simp_all add: disposals_def)
  show "\<exists>rest. w1 = w @ Drivers_called # rest"
    using c by (elim disjE conjE exE) simp_all
qed

lemma try_connect_failed_trace:
  assumes "try_connect env self w = (Inl e, self1, w1)" and "is_SQLAlchemyError e"
  shows "connection_attempts w1 = connection_attempts w + 1"
  using assms
  by (auto simp: try_connect_def get_available_driver_def Let_def connection_attempts_def
      split: if_splits sum.splits option.splits)

lemma try_connect_engines:
  assumes "try_connect env self w = (r, self1, w1)"
  shows "\<exists>bs. engines_created w1 = engines_created w @ bs
              \<and> self1 = (if bs = [] then self
                         else self\<lparr>engine := Some (last bs),
                                    session_maker := Some (Sessionmaker (last bs))\<rparr>)
              \<and> ((\<exists>u. r = Inr u) \<longrightarrow> bs \<noteq> [])"
proof -
  note c = try_connect_cases [OF assms]
  have "(engines_created w1 = engines_created w @ [] \<and> self1 = self \<and> (\<forall>u. r \<noteq> Inr u))
      \<or> (\<exists>eng. engines_created w1 = engines_created w @ [eng]
            \<and> self1 = self\<lparr>engine := Some eng, session_maker := Some (Sessionmaker eng)\<rparr>)"
    using c by (elim disjE conjE exE) (simp_all add: engines_created_def)
  then show ?thesis
  proof (elim disjE conjE exE)
    assume "engines_created w1 = engines_created w @ []" "self1 = self" "\<forall>u. r \<noteq> Inr u"
    then show ?thesis by (intro exI [of _ "[]"]) simp
  next
    fix eng
    assume "engines_created w1 = engines_created w @ [eng]"
      "self1 = self\<lparr>engine := Some eng, session_maker := Some (Sessionmaker eng)\<rparr>"
    then show ?thesis by (intro exI [of _ "[eng]"]) simp
  qed
qed

text \<open>
  The loop: the object after it holds the last engine that an attempt created, if any,
  and a run that returns normally has created one. \<open>init_connection_run\<close> spells out
  the three iterations.
\<close>

lemma init_loop_engines:
  assumes "init_loop env attempts self w = (r, self1, w1)"
  shows "\<exists>bs. engines_created w1 = engines_created w @ bs
              \<and> self1 = (if bs = [] then self
                         else self\<lparr>engine := Some (last bs),
                                    session_maker := Some (Sessionmaker (last bs))\<rparr>)"
  using assms
proof (induction attempts arbitrary: self w)
  case Nil
  then show ?case by simp
next
  case (Cons a rest)
  obtain r0 s1 u1 where t: "try_connect env self w = (r0, s1, u1)"
    by (cases "try_connect env self w") auto
  obtain b0 where c0: "engines_created u1 = engines_created w @ b0"
    and s0: "s1 = (if b0 = [] then self
                   else self\<lparr>engine := Some (last b0),
                              session_maker := Some (Sessionmaker (last b0))\<rparr>)"
    using try_connect_engines [OF t] by blast
  show ?case
  proof (cases "\<exists>e. r0 = Inl e \<and> is_SQLAlchemyError e \<and> a < max_retries - 1")
    case True
    then have "init_loop env rest s1
                 (u1 @ [Print (retry_warning a (delay a)), Sleep (delay a)]) = (r, self1, w1)"
      using Cons.prems t by auto
    from Cons.IH [OF this] obtain b1 where
      c1: "engines_created w1 =
             engines_created (u1 @ [Print (retry_warning a (delay a)), Sleep (delay a)]) @ b1"
      and s1: "self1 = (if b1 = [] then s1
                        else s1\<lparr>engine := Some (last b1),
                                 session_maker := Some (Sessionmaker (last b1))\<rparr>)"
      by blast
    have "engines_created w1 = engines_created w @ (b0 @ b1)"
      using c0 c1 by (simp add: engines_created_def)
    moreover have "self1 = (if b0 @ b1 = [] then self
                        else self\<lparr>engine := Some (last (b0 @ b1)),
                                   session_maker := Some (Sessionmaker (last (b0 @ b1)))\<rparr>)"
      using s0 s1 by simp
    ultimately show ?thesis by blast
  next
    case False
    then have "self1 = s1 \<and> (w1 = u1 \<or> w1 = u1 @ [Print failed_message])"
      using Cons.prems t by (cases r0) (auto split: if_splits)
    then have "engines_created w1 = engines_created w @ b0 \<and> self1 = s1"
      using c0 by (auto simp: engines_created_def)
    with s0 show ?thesis by blast
  qed
qed

lemma init_connection_engines:
  assumes "init_connection env self w = (r, self1, w1)"
  shows "\<exists>bs. engines_created w1 = engines_created w @ bs
              \<and> (bs = [] \<longrightarrow> self1 = self)
              \<and> (bs \<noteq> [] \<longrightarrow>
                    self1 = self\<lparr>engine := Some (last bs),
                                 session_maker := Some (Sessionmaker (last bs))\<rparr>)"
  using init_loop_engines [OF assms [unfolded init_connection_def]] by auto

lemma init_loop_returned:
  assumes "init_loop env attempts self w = (Inr u, self1, w1)"
    and "attempts \<noteq> []" and "max_retries - 1 \<le> last attempts"
  shows "\<exists>bs. bs \<noteq> [] \<and> engines_created w1 = engines_created w @ bs"
  using assms
proof (induction attempts arbitrary: self w)
  case Nil
  then show ?case by simp
next
  case (Cons a rest)
  obtain r0 s1 u1 where t: "try_connect env self w = (r0, s1, u1)"
    by (cases "try_connect env self w") auto
  obtain b0 where c0: "engines_created u1 = engines_created w @ b0"
    and n0: "(\<exists>v. r0 = Inr v) \<longrightarrow> b0 \<noteq> []"
    using try_connect_engines [OF t] by blast
  show ?case
  proof (cases r0)
    case (Inr v)
    then have "w1 = u1" using Cons.prems(1) t by simp
    with c0 n0 Inr show ?thesis by blast
  next
    case (Inl e)
    then have retry: "is_SQLAlchemyError e \<and> a < max_retries - 1"
      and rec: "init_loop env rest s1
                  (u1 @ [Print (retry_warning a (delay a)), Sleep (delay a)]) = (Inr u, self1, w1)"
      using Cons.prems(1) t by (auto split: if_splits)
    have "rest \<noteq> []" using retry Cons.prems(3) by (cases rest) auto
    moreover have "max_retries - 1 \<le> last rest"
      using Cons.prems(3) \<open>rest \<noteq> []\<close> by simp
    ultimately obtain b1 where "b1 \<noteq> []"
      and "engines_created w1 =
             engines_created (u1 @ [Print (retry_warning a (delay a)), Sleep (delay a)]) @ b1"
      using Cons.IH [OF rec] by blast
    then have "b0 @ b1 \<noteq> [] \<and> engines_created w1 = engines_created w @ (b0 @ b1)"
      using c0 by (simp add: engines_created_def)
    then show ?thesis by blast
  qed
qed

lemma init_connection_returned:
  assumes "init_connection env self w = (Inr u, self1, w1)"
  shows "engines_created w1 \<noteq> engines_created w"
  using init_loop_returned [OF assms [unfolded init_connection_def]]
  by (auto simp: attempts_list max_retries_def)

lemma init_connection_run:
  assumes t0: "try_connect env self w = (r0, s1, w1)"
    and t1: "try_connect env s1 (w1 @ [Print (retry_warning 0 (delay 0)), Sleep (delay 0)]) =
               (r1, s2, w2)"
    and t2: "try_connect env s2 (w2 @ [Print (retry_warning 1 (delay 1)), Sleep (delay 1)]) =
               (r2, s3, w3)"
  shows "init_connection env self w =
           (case r0 of
              Inr u \<Rightarrow> (Inr (), s1, w1)
            | Inl e0 \<Rightarrow>
                if \<not> is_SQLAlchemyError e0 then (Inl e0, s1, w1)
                else (case r1 of
                        Inr u \<Rightarrow> (Inr (), s2, w2)
                      | Inl e1 \<Rightarrow>
                          if \<not> is_SQLAlchemyError e1 then (Inl e1, s2, w2)
                          else (case r2 of
                                  Inr u \<Rightarrow> (Inr (), s3, w3)
                                | Inl e2 \<Rightarrow>
                                    if \<not> is_SQLAlchemyError e2 then (Inl e2, s3, w3)
                                    else (Inl (DatabaseConnectionError
                                                 (''Failed to connect to database: '' @ str_exn e2)
                                                 (Some e2)),
                                          s3, w3 @ [Print failed_message]))))"
  unfolding init_connection_def attempts_list
  using t0 t1 t2 by (simp add: max_retries_def split: sum.splits)

text \<open>The attempts and the initialisation in the concrete environments.\<close>

lemma test_connection_string:
  "connection_string test_connection ''ODBC Driver 17 for SQL Server'' =
     ''mssql+pyodbc://test_host:1433/test_db?driver=ODBC Driver 17 for SQL Server&trusted_connection=yes''"
  by (simp add: connection_string_def str_int_def str_nat.simps test_connection_def
      new_DatabaseConnection_def)

lemma env_ok_driver:
  "get_available_driver env_ok w = (Inr ''ODBC Driver 17 for SQL Server'', w @ [Drivers_called])"
  by (simp add: get_available_driver_def env_ok_def SUPPORTED_DRIVERS_def)

lemma env_create_fails_attempt:
  "try_connect env_create_fails self w =
     (Inl (OperationalError ''mock error''), self,
      w @ [Drivers_called,
           Create_engine (connection_string self ''ODBC Driver 17 for SQL Server'') (timeout self)])"
  by (simp add: try_connect_def get_available_driver_def env_create_fails_def env_ok_def
      SUPPORTED_DRIVERS_def)

lemma env_fail3_attempt:
  "connection_attempts w < 3 \<Longrightarrow>
   try_connect env_fail3 self w =
     (Inl (OperationalError ''mock error''), self,
      w @ [Drivers_called,
           Create_engine (connection_string self ''ODBC Driver 17 for SQL Server'') (timeout self)])"
  by (simp add: try_connect_def get_available_driver_def env_fail3_def env_ok_def
      SUPPORTED_DRIVERS_def connection_attempts_def)

lemma env_probe_fails_attempt:
  "try_connect env_probe_fails self w =
     (Inl (OperationalError ''mock error''),
      self\<lparr>engine := Some 0, session_maker := Some (Sessionmaker 0)\<rparr>,
      w @ [Drivers_called,
           Create_engine (connection_string self ''ODBC Driver 17 for SQL Server'') (timeout self),
           Sessionmaker_bind 0, Engine_connect 0])"
  by (simp add: try_connect_def get_available_driver_def env_probe_fails_def env_ok_def
      SUPPORTED_DRIVERS_def)

lemma env_probe_fails_init:
  "\<exists>w1. init_connection env_probe_fails test_connection [] =
          (Inl (DatabaseConnectionError ''Failed to connect to database: mock error''
                  (Some (OperationalError ''mock error''))),
           connected_connection, w1)
        \<and> disposals w1 = [] \<and> connection_attempts w1 = 3 \<and> sleeps w1 = [1, 2]
        \<and> engines_created w1 = [0, 0, 0]"
  unfolding init_connection_def attempts_list
  by (simp add: env_probe_fails_attempt max_retries_def connected_connection_def
      delay_def init_delay_def backoff_factor_def disposals_def connection_attempts_def
      sleeps_def engines_created_def)

lemma env_create_fails_init:
  "\<exists>w1. init_connection env_create_fails test_connection [] =
          (Inl (DatabaseConnectionError ''Failed to connect to database: mock error''
                  (Some (OperationalError ''mock error''))),
           test_connection, w1)
        \<and> attempts_started w1 = 3 \<and> connection_attempts w1 = 3 \<and> sleeps w1 = [1, 2]
        \<and> engines_created w1 = []"
  unfolding init_connection_def attempts_list
  by (simp add: env_create_fails_attempt max_retries_def
      delay_def init_delay_def backoff_factor_def attempts_started_def connection_attempts_def
      sleeps_def engines_created_def)

lemma env_no_driver_init:
  "init_connection env_no_driver test_connection [] =
     (Inl (DatabaseConnectionError ''No supported ODBC driver found.'' None),
      test_connection, [Drivers_called])"
  unfolding init_connection_def attempts_list
  by (simp add: try_connect_def get_available_driver_def env_no_driver_def env_ok_def
      SUPPORTED_DRIVERS_def)

lemma env_ok_attempt:
  "try_connect env_ok test_connection [] =
     (Inr (), connected_connection,
      [Drivers_called,
       Create_engine ''mssql+pyodbc://test_host:1433/test_db?driver=ODBC Driver 17 for SQL Server&trusted_connection=yes'' 30,
       Sessionmaker_bind 0, Engine_connect 0,
       Print ''INFO: Connection to database successful. Host: test_host, Port: 1433, Database: test_db''])"
  by (simp add: try_connect_def env_ok_driver test_connection_string)
     (simp add: env_ok_def connected_connection_def connected_message_def str_int_def
        str_nat.simps test_connection_def new_DatabaseConnection_def)

lemma env_ok_init:
  "init_connection env_ok test_connection [] =
     (Inr (), connected_connection,
      [Drivers_called,
       Create_engine ''mssql+pyodbc://test_host:1433/test_db?driver=ODBC Driver 17 for SQL Server&trusted_connection=yes'' 30,
       Sessionmaker_bind 0, Engine_connect 0,
       Print ''INFO: Connection to database successful. Host: test_host, Port: 1433, Database: test_db''])"
  unfolding init_connection_def attempts_list
  by (simp add: env_ok_attempt)

lemma env_dispose_fails_init:
  "init_connection env_dispose_fails test_connection [] = init_connection env_ok test_connection []"
proof -
  have "try_connect env_dispose_fails test_connection [] = try_connect env_ok test_connection []"
    by (simp add: try_connect_def get_available_driver_def env_dispose_fails_def env_ok_def
        SUPPORTED_DRIVERS_def)
  then show ?thesis
    unfolding init_connection_def attempts_list by (simp add: env_ok_attempt)
qed

section \<open>Driver resolution\<close>

text \<open>
  C5. When the drivers that pyodbc lists are disjoint from the supported ones,
  \<^verbatim>\<open>_init_connection\<close> raises the DatabaseConnectionError of the driver lookup at once:
  the object is unchanged and the only call made is the one to \<^verbatim>\<open>pyodbc.drivers()\<close>,
  so the engine is never created or probed and there is no sleep. The error is not one
  the retry handler catches.
\<close>

theorem no_driver_fails_immediately:
  assumes "set (pyodbc_drivers env w) \<inter> set SUPPORTED_DRIVERS = {}"
  shows "init_connection env self w =
           (Inl (DatabaseConnectionError ''No supported ODBC driver found.'' None),
            self, w @ [Drivers_called])"
  unfolding init_connection_def attempts_list
  by (simp add: try_connect_no_driver [OF assms])

theorem no_driver_fails_immediately_witness:
  "set (pyodbc_drivers env_no_driver []) \<inter> set SUPPORTED_DRIVERS = {}
   \<and> init_connection env_no_driver (new_DatabaseConnection ''test_db'' ''test_host'' 1433 30) [] =
       (Inl (DatabaseConnectionError ''No supported ODBC driver found.'' None),
        new_DatabaseConnection ''test_db'' ''test_host'' 1433 30, [Drivers_called])"
proof -
  have h: "set (pyodbc_drivers env_no_driver []) \<inter> set SUPPORTED_DRIVERS = {}"
    by (simp add: env_no_driver_def env_ok_def SUPPORTED_DRIVERS_def)
  show ?thesis
    using h no_driver_fails_immediately [OF h, of "new_DatabaseConnection ''test_db'' ''test_host'' 1433 30"]
    by simp
qed

section \<open>Retries and backoff\<close>

text \<open>
  C7. The delay of line 79 is \<open>init_delay * backoff_factor ^ a\<close>, that is \<open>2 ^ a\<close>, for
  every attempt index \<open>a\<close>, and \<open>init_delay\<close> for the first. In every run of
  \<^verbatim>\<open>_init_connection\<close> that starts \<open>n\<close> attempts, the sleeps are exactly
  \<open>delay 0, ..., delay (n - 2)\<close>, one between two attempts. When the first attempt fails
  with an error the handler catches, the warning and the sleep of \<open>delay 0\<close> follow and
  then the second attempt starts; when that one fails too, the warning and the sleep of
  \<open>delay 1\<close> follow and the third attempt starts.
\<close>

theorem backoff_delays:
  "(\<forall>a. delay a = init_delay * backoff_factor ^ a \<and> delay a = 2 ^ a)
   \<and> delay 0 = init_delay
   \<and> (\<exists>n. 1 \<le> n \<and> n \<le> max_retries
          \<and> attempts_started (snd (snd (init_connection env self w))) = attempts_started w + n
          \<and> sleeps (snd (snd (init_connection env self w))) = sleeps w @ map delay [0..<n - 1])
   \<and> (\<forall>e0 s1 w1.
         try_connect env self w = (Inl e0, s1, w1) \<and> is_SQLAlchemyError e0 \<longrightarrow>
         (\<exists>rest. snd (snd (init_connection env self w)) =
                   w1 @ [Print (retry_warning 0 (delay 0)), Sleep (delay 0)]
                      @ Drivers_called # rest)
         \<and> (\<forall>e1 s2 w2.
               try_connect env s1 (w1 @ [Print (retry_warning 0 (delay 0)), Sleep (delay 0)]) =
                 (Inl e1, s2, w2) \<and> is_SQLAlchemyError e1 \<longrightarrow>
               (\<exists>rest. snd (snd (init_connection env self w)) =
                         w2 @ [Print (retry_warning 1 (delay 1)), Sleep (delay 1)]
                            @ Drivers_called # rest)))"
proof -
  have formula: "\<forall>a. delay a = init_delay * backoff_factor ^ a \<and> delay a = 2 ^ a"
    by (simp add: delay_def init_delay_def backoff_factor_def)
  have first: "delay 0 = init_delay"
    by (simp add: delay_def)
  obtain r0 s1 w1 where t0: "try_connect env self w = (r0, s1, w1)"
    by (cases "try_connect env self w") auto
  define v1 where "v1 = w1 @ [Print (retry_warning 0 (delay 0)), Sleep (delay 0)]"
  obtain r1 s2 w2 where t1: "try_connect env s1 v1 = (r1, s2, w2)"
    by (cases "try_connect env s1 v1") auto
  define v2 where "v2 = w2 @ [Print (retry_warning 1 (delay 1)), Sleep (delay 1)]"
  obtain r2 s3 w3 where t2: "try_connect env s2 v2 = (r2, s3, w3)"
    by (cases "try_connect env s2 v2") auto
  define retry0 where "retry0 \<longleftrightarrow> (\<exists>e. r0 = Inl e \<and> is_SQLAlchemyError e)"
  define retry1 where "retry1 \<longleftrightarrow> (\<exists>e. r1 = Inl e \<and> is_SQLAlchemyError e)"
  define retry2 where "retry2 \<longleftrightarrow> (\<exists>e. r2 = Inl e \<and> is_SQLAlchemyError e)"
  define final where "final = snd (snd (init_connection env self w))"
  have run: "final = (if \<not> retry0 then w1 else if \<not> retry1 then w2
                      else if \<not> retry2 then w3 else w3 @ [Print failed_message])"
    unfolding final_def
      init_connection_run [OF t0 t1 [unfolded v1_def] t2 [unfolded v2_def]]
      retry0_def retry1_def retry2_def
    by (cases r0; cases r1; cases r2) simp_all
  have a1: "attempts_started w1 = attempts_started w + 1" and s1: "sleeps w1 = sleeps w"
    using try_connect_trace [OF t0] by simp_all
  have a2: "attempts_started w2 = attempts_started w + 2"
    and s2: "sleeps w2 = sleeps w @ [delay 0]"
    using try_connect_trace [OF t1] a1 s1
    by (simp_all add: v1_def attempts_started_def sleeps_def)
  have a3: "attempts_started w3 = attempts_started w + 3"
    and s3: "sleeps w3 = sleeps w @ [delay 0, delay 1]"
    using try_connect_trace [OF t2] a2 s2
    by (simp_all add: v2_def attempts_started_def sleeps_def)
  have count: "\<exists>n. 1 \<le> n \<and> n \<le> max_retries
          \<and> attempts_started final = attempts_started w + n
          \<and> sleeps final = sleeps w @ map delay [0..<n - 1]"
  proof (cases retry0)
    case False
    then have "final = w1" using run by simp
    then show ?thesis using a1 s1 by (intro exI [of _ 1]) (simp add: max_retries_def)
  next
    case r0: True
    show ?thesis
    proof (cases retry1)
      case False
      then have "final = w2" using run r0 by simp
      then show ?thesis using a2 s2 by (intro exI [of _ 2]) (simp add: max_retries_def)
    next
      case True
      then have "final = w3 \<or> final = w3 @ [Print failed_message]" using run r0 by simp
      then have "attempts_started final = attempts_started w + 3"
        and "sleeps final = sleeps w @ [delay 0, delay 1]"
        using a3 s3 by (auto simp: attempts_started_def sleeps_def)
      then show ?thesis
        by (intro exI [of _ 3]) (simp add: max_retries_def upt_rec)
    qed
  qed
  obtain q1 where q1: "w2 = v1 @ Drivers_called # q1"
    using try_connect_trace(4) [OF t1] by blast
  obtain q2 where q2: "w3 = v2 @ Drivers_called # q2"
    using try_connect_trace(4) [OF t2] by blast
  have after1: "\<exists>rest. final = v2 @ Drivers_called # rest" if "retry0" "retry1"
  proof -
    have "final = w3 \<or> final = w3 @ [Print failed_message]" using run that by simp
    then show ?thesis using q2 by auto
  qed
  have after0: "\<exists>rest. final = v1 @ Drivers_called # rest" if y: "retry0"
  proof (cases retry1)
    case False
    then have "final = w2" using run y by simp
    then show ?thesis using q1 by blast
  next
    case True
    then obtain rest where "final = v2 @ Drivers_called # rest"
      using after1 y by blast
    then have "final = v1 @ Drivers_called # (q1 @ [Print (retry_warning 1 (delay 1)),
                 Sleep (delay 1)] @ Drivers_called # rest)"
      using q1 by (simp add: v2_def)
    then show ?thesis by blast
  qed
  have chain: "\<forall>e0 s1' w1'.
         try_connect env self w = (Inl e0, s1', w1') \<and> is_SQLAlchemyError e0 \<longrightarrow>
         (\<exists>rest. final =
                   w1' @ [Print (retry_warning 0 (delay 0)), Sleep (delay 0)]
                       @ Drivers_called # rest)
         \<and> (\<forall>e1 s2' w2'.
               try_connect env s1' (w1' @ [Print (retry_warning 0 (delay 0)), Sleep (delay 0)]) =
                 (Inl e1, s2', w2') \<and> is_SQLAlchemyError e1 \<longrightarrow>
               (\<exists>rest. final =
                         w2' @ [Print (retry_warning 1 (delay 1)), Sleep (delay 1)]
                             @ Drivers_called # rest))"
  proof (intro allI impI, elim conjE)
    fix e0 s1' w1'
    assume h: "try_connect env self w = (Inl e0, s1', w1')" and x: "is_SQLAlchemyError e0"
    from h t0 have eq0: "r0 = Inl e0" "s1' = s1" "w1' = w1" by simp_all
    then have y0: retry0 using x by (simp add: retry0_def)
    have p0: "\<exists>rest. final =
                   w1' @ [Print (retry_warning 0 (delay 0)), Sleep (delay 0)]
                       @ Drivers_called # rest"
      using after0 [OF y0] eq0 by (simp add: v1_def)
    have p1: "\<forall>e1 s2' w2'.
               try_connect env s1' (w1' @ [Print (retry_warning 0 (delay 0)), Sleep (delay 0)]) =
                 (Inl e1, s2', w2') \<and> is_SQLAlchemyError e1 \<longrightarrow>
               (\<exists>rest. final =
                         w2' @ [Print (retry_warning 1 (delay 1)), Sleep (delay 1)]
                             @ Drivers_called # rest)"
    proof (intro allI impI, elim conjE)
      fix e1 s2' w2'
      assume h1: "try_connect env s1' (w1' @ [Print (retry_warning 0 (delay 0)), Sleep (delay 0)]) =
                 (Inl e1, s2', w2')" and x1: "is_SQLAlchemyError e1"
      from h1 t1 eq0 have eq1: "r1 = Inl e1" "w2' = w2" by (simp_all add: v1_def)
      then have y1: retry1 using x1 by (simp add: retry1_def)
      show "\<exists>rest. final =
                         w2' @ [Print (retry_warning 1 (delay 1)), Sleep (delay 1)]
                             @ Drivers_called # rest"
        using after1 [OF y0 y1] eq1 by (simp add: v2_def)
    qed
    show "(\<exists>rest. final =
                   w1' @ [Print (retry_warning 0 (delay 0)), Sleep (delay 0)]
                       @ Drivers_called # rest)
         \<and> (\<forall>e1 s2' w2'.
               try_connect env s1' (w1' @ [Print (retry_warning 0 (delay 0)), Sleep (delay 0)]) =
                 (Inl e1, s2', w2') \<and> is_SQLAlchemyError e1 \<longrightarrow>
               (\<exists>rest. final =
                         w2' @ [Print (retry_warning 1 (delay 1)), Sleep (delay 1)]
                             @ Drivers_called # rest))"
      using p0 p1 by blast
  qed
  show ?thesis
    using formula first count chain unfolding final_def by blast
qed

theorem backoff_delays_witness:
  "try_connect env_create_fails test_connection [] =
     (Inl (OperationalError ''mock error''), test_connection, failed_attempt_events)
   \<and> is_SQLAlchemyError (OperationalError ''mock error'')
   \<and> try_connect env_create_fails test_connection
        (failed_attempt_events @ [Print (retry_warning 0 (delay 0)), Sleep (delay 0)]) =
       (Inl (OperationalError ''mock error''), test_connection,
        failed_attempt_events @ [Print (retry_warning 0 (delay 0)), Sleep (delay 0)]
          @ failed_attempt_events)
   \<and> (\<exists>rest. snd (snd (init_connection env_create_fails test_connection [])) =
         failed_attempt_events
         @ [Print ''WARNING: Connection attempt 1 failed. Retrying in 1 seconds'', Sleep 1]
         @ Drivers_called # rest)
   \<and> (\<exists>rest. snd (snd (init_connection env_create_fails test_connection [])) =
         failed_attempt_events
         @ [Print ''WARNING: Connection attempt 1 failed. Retrying in 1 seconds'', Sleep 1]
         @ failed_attempt_events
         @ [Print ''WARNING: Connection attempt 2 failed. Retrying in 2 seconds'', Sleep 2]
         @ Drivers_called # rest)"
proof -
  have t0: "try_connect env_create_fails test_connection [] =
     (Inl (OperationalError ''mock error''), test_connection, failed_attempt_events)"
    by (simp add: env_create_fails_attempt failed_attempt_events_def)
  have x: "is_SQLAlchemyError (OperationalError ''mock error'')" by simp
  have t1: "try_connect env_create_fails test_connection
        (failed_attempt_events @ [Print (retry_warning 0 (delay 0)), Sleep (delay 0)]) =
       (Inl (OperationalError ''mock error''), test_connection,
        failed_attempt_events @ [Print (retry_warning 0 (delay 0)), Sleep (delay 0)]
          @ failed_attempt_events)"
    by (simp add: env_create_fails_attempt failed_attempt_events_def)
  have w0: "retry_warning 0 1 = ''WARNING: Connection attempt 1 failed. Retrying in 1 seconds''"
    by (simp add: retry_warning_def str_nat.simps)
  have w1: "retry_warning 1 2 = ''WARNING: Connection attempt 2 failed. Retrying in 2 seconds''"
    by (simp add: retry_warning_def str_nat.simps)
  have d: "delay 0 = 1" "delay 1 = 2"
    by (simp_all add: delay_def init_delay_def backoff_factor_def)
  note c = backoff_delays [of env_create_fails test_connection "[]", THEN conjunct2,
      THEN conjunct2, THEN conjunct2, rule_format, OF conjI [OF t0 x]]
  note c1 = c [THEN conjunct1]
  note c2 = c [THEN conjunct2, rule_format, OF conjI [OF t1 x]]
  show ?thesis
    using t0 x t1 c1 c2 unfolding d w0 w1 by (intro conjI) simp_all
qed

text \<open>
  C6, as the code has it. When the three attempts of a run each fail with an error the
  handler catches, \<^verbatim>\<open>_init_connection\<close> has started three attempts, called
  \<^verbatim>\<open>create_engine\<close> three times and slept twice (1, then 2), and it raises
  DatabaseConnectionError whose message and cause are those of the error of the third
  attempt. Nothing is disposed or reset: the object is unchanged when no
  \<^verbatim>\<open>create_engine\<close> call of the run returned an engine, and otherwise it holds the
  engine that the last such call returned and the session factory bound to it.
\<close>

theorem all_attempts_fail:
  assumes t0: "try_connect env self w = (Inl e0, s1, w1)" and x0: "is_SQLAlchemyError e0"
    and t1: "try_connect env s1 (w1 @ [Print (retry_warning 0 (delay 0)), Sleep (delay 0)]) =
               (Inl e1, s2, w2)"
    and x1: "is_SQLAlchemyError e1"
    and t2: "try_connect env s2 (w2 @ [Print (retry_warning 1 (delay 1)), Sleep (delay 1)]) =
               (Inl e2, s3, w3)"
    and x2: "is_SQLAlchemyError e2"
  shows "init_connection env self w =
           (Inl (DatabaseConnectionError (''Failed to connect to database: '' @ str_exn e2) (Some e2)),
            s3, w3 @ [Print failed_message])
       \<and> attempts_started (w3 @ [Print failed_message]) = attempts_started w + 3
       \<and> connection_attempts (w3 @ [Print failed_message]) = connection_attempts w + 3
       \<and> sleeps (w3 @ [Print failed_message]) = sleeps w @ [1, 2]
       \<and> disposals (w3 @ [Print failed_message]) = disposals w
       \<and> (engines_created w3 = engines_created w \<longrightarrow> s3 = self)
       \<and> (engines_created w3 \<noteq> engines_created w \<longrightarrow>
            s3 = self\<lparr>engine := Some (last (engines_created w3)),
                       session_maker := Some (Sessionmaker (last (engines_created w3)))\<rparr>)"
proof -
  have run: "init_connection env self w =
      (Inl (DatabaseConnectionError (''Failed to connect to database: '' @ str_exn e2) (Some e2)),
       s3, w3 @ [Print failed_message])"
    using init_connection_run [OF t0 t1 t2] x0 x1 x2 by simp
  have d: "delay 0 = 1" "delay 1 = 2"
    by (simp_all add: delay_def init_delay_def backoff_factor_def)
  have a: "attempts_started (w3 @ [Print failed_message]) = attempts_started w + 3"
    using try_connect_trace(1) [OF t0] try_connect_trace(1) [OF t1] try_connect_trace(1) [OF t2]
    by (simp add: attempts_started_def)
  have c: "connection_attempts (w3 @ [Print failed_message]) = connection_attempts w + 3"
    using try_connect_failed_trace [OF t0 x0] try_connect_failed_trace [OF t1 x1]
      try_connect_failed_trace [OF t2 x2]
    by (simp add: connection_attempts_def)
  have s: "sleeps (w3 @ [Print failed_message]) = sleeps w @ [1, 2]"
    using try_connect_trace(2) [OF t0] try_connect_trace(2) [OF t1] try_connect_trace(2) [OF t2]
    by (simp add: sleeps_def delay_power)
  have p: "disposals (w3 @ [Print failed_message]) = disposals w"
    using try_connect_trace(3) [OF t0] try_connect_trace(3) [OF t1] try_connect_trace(3) [OF t2]
    by (simp add: disposals_def)
  obtain bs where b: "engines_created (w3 @ [Print failed_message]) = engines_created w @ bs"
    and b0: "bs = [] \<longrightarrow> s3 = self"
    and b1: "bs \<noteq> [] \<longrightarrow>
               s3 = self\<lparr>engine := Some (last bs), session_maker := Some (Sessionmaker (last bs))\<rparr>"
    using init_connection_engines [OF run] by blast
  have e: "engines_created w3 = engines_created w @ bs"
    using b by (simp add: engines_created_def)
  have st0: "engines_created w3 = engines_created w \<longrightarrow> s3 = self"
    using e b0 by simp
  have st1: "engines_created w3 \<noteq> engines_created w \<longrightarrow>
            s3 = self\<lparr>engine := Some (last (engines_created w3)),
                       session_maker := Some (Sessionmaker (last (engines_created w3)))\<rparr>"
    using e b1 by auto
  show ?thesis using run a c s p st0 st1 by (intro conjI)
qed

text \<open>
  The run in which \<^verbatim>\<open>create_engine\<close> raises three times, although a fourth call would
  return an engine.
\<close>

theorem all_attempts_fail_witness:
  "fst (init_connection env_fail3 test_connection []) =
     Inl (DatabaseConnectionError ''Failed to connect to database: mock error''
            (Some (OperationalError ''mock error'')))
   \<and> fst (snd (init_connection env_fail3 test_connection [])) = test_connection
   \<and> attempts_started (snd (snd (init_connection env_fail3 test_connection []))) = 3
   \<and> connection_attempts (snd (snd (init_connection env_fail3 test_connection []))) = 3
   \<and> sleeps (snd (snd (init_connection env_fail3 test_connection []))) = [1, 2]
   \<and> create_engine env_fail3 (snd (snd (init_connection env_fail3 test_connection [])))
        (connection_string test_connection ''ODBC Driver 17 for SQL Server'') 30 = Inr 0"
proof -
  define v1 where "v1 = failed_attempt_events @ [Print (retry_warning 0 (delay 0)), Sleep (delay 0)]"
  define v2 where
    "v2 = (v1 @ failed_attempt_events) @ [Print (retry_warning 1 (delay 1)), Sleep (delay 1)]"
  have n: "connection_attempts [] < 3" "connection_attempts v1 < 3" "connection_attempts v2 < 3"
    by (simp_all add: v1_def v2_def failed_attempt_events_def connection_attempts_def)
  have x: "is_SQLAlchemyError (OperationalError ''mock error'')" by simp
  have t0: "try_connect env_fail3 test_connection [] =
      (Inl (OperationalError ''mock error''), test_connection, failed_attempt_events)"
    using env_fail3_attempt [OF n(1)] by (simp add: failed_attempt_events_def)
  have t1: "try_connect env_fail3 test_connection
              (failed_attempt_events @ [Print (retry_warning 0 (delay 0)), Sleep (delay 0)]) =
      (Inl (OperationalError ''mock error''), test_connection, v1 @ failed_attempt_events)"
    using env_fail3_attempt [OF n(2)] by (simp add: failed_attempt_events_def v1_def)
  have t2: "try_connect env_fail3 test_connection
              ((v1 @ failed_attempt_events) @ [Print (retry_warning 1 (delay 1)), Sleep (delay 1)]) =
      (Inl (OperationalError ''mock error''), test_connection, v2 @ failed_attempt_events)"
    using env_fail3_attempt [OF n(3)] by (simp add: failed_attempt_events_def v2_def)
  note r = all_attempts_fail [OF t0 x t1 x t2 x]
  have e: "engines_created (v2 @ failed_attempt_events) = engines_created []"
    by (simp add: v1_def v2_def failed_attempt_events_def engines_created_def)
  have f: "create_engine env_fail3 ((v2 @ failed_attempt_events) @ [Print failed_message])
        (connection_string test_connection ''ODBC Driver 17 for SQL Server'') 30 = Inr 0"
    by (simp add: env_fail3_def v1_def v2_def failed_attempt_events_def connection_attempts_def)
  show ?thesis
    using r e f by (simp add: attempts_started_def connection_attempts_def sleeps_def)
qed

text \<open>
  \<^verbatim>\<open>create_engine\<close> succeeds and the probe raises OperationalError in all three
  attempts: the initialisation fails, and the object holds an engine and a session
  factory afterwards.
\<close>

theorem failed_probe_not_closed_counterexample:
  "fst (init_connection env_probe_fails test_connection []) =
     Inl (DatabaseConnectionError ''Failed to connect to database: mock error''
            (Some (OperationalError ''mock error'')))
   \<and> engine (fst (snd (init_connection env_probe_fails test_connection []))) = Some 0
   \<and> session_maker (fst (snd (init_connection env_probe_fails test_connection []))) =
       Some (Sessionmaker 0)
   \<and> connection_attempts (snd (snd (init_connection env_probe_fails test_connection []))) = 3
   \<and> sleeps (snd (snd (init_connection env_probe_fails test_connection []))) = [1, 2]"
  using env_probe_fails_init by (auto simp: connected_connection_def)

section \<open>Requesting a session\<close>

lemma get_session_without_factory:
  "session_maker self = None \<Longrightarrow>
   get_session env body self w =
     (Some (DatabaseConnectionError ''Database connection not initialised.'' None), w)"
  by (simp add: get_session_def)

text \<open>
  C3, as the code has it. \<^verbatim>\<open>get_session\<close> raises the "not initialised" error on a new
  object, and on an object without a session factory whose initialisation ran without
  any \<^verbatim>\<open>create_engine\<close> call returning an engine; such an initialisation has failed.
  As soon as a \<^verbatim>\<open>create_engine\<close> call of the run returned an engine, whether the
  initialisation then succeeded or failed at the probe, the object holds the session
  factory bound to the last engine returned, and \<^verbatim>\<open>get_session\<close> runs the caller's
  block in a scope on the session that this factory returns. A successful
  initialisation is always such a run.
\<close>

theorem get_session_needs_factory:
  assumes "init_connection env self w0 = (r, self1, w1)"
  shows "get_session env body (new_DatabaseConnection d h p t) w =
           (Some (DatabaseConnectionError ''Database connection not initialised.'' None), w)
       \<and> (session_maker self = None \<and> engines_created w1 = engines_created w0 \<longrightarrow>
            (\<exists>e. r = Inl e)
            \<and> get_session env body self1 w =
                (Some (DatabaseConnectionError ''Database connection not initialised.'' None), w))
       \<and> (engines_created w1 \<noteq> engines_created w0 \<longrightarrow>
            session_maker self1 = Some (Sessionmaker (last (engines_created w1)))
            \<and> (\<forall>session.
                  sessionmaker_call env w (Sessionmaker (last (engines_created w1))) = Inr session
                  \<longrightarrow> get_session env body self1 w =
                      session_scope env body session
                        (w @ [Session_new (Sessionmaker (last (engines_created w1)))])))
       \<and> (r = Inr () \<longrightarrow> engines_created w1 \<noteq> engines_created w0)"
proof -
  have a: "get_session env body (new_DatabaseConnection d h p t) w =
           (Some (DatabaseConnectionError ''Database connection not initialised.'' None), w)"
    by (simp add: get_session_without_factory new_DatabaseConnection_def)
  obtain bs where b: "engines_created w1 = engines_created w0 @ bs"
    and b0: "bs = [] \<longrightarrow> self1 = self"
    and b1: "bs \<noteq> [] \<longrightarrow>
               self1 = self\<lparr>engine := Some (last bs), session_maker := Some (Sessionmaker (last bs))\<rparr>"
    using init_connection_engines [OF assms] by blast
  have ret: "r = Inr () \<longrightarrow> engines_created w1 \<noteq> engines_created w0"
    using init_connection_returned assms by blast
  have none: "(\<exists>e. r = Inl e)
            \<and> get_session env body self1 w =
                (Some (DatabaseConnectionError ''Database connection not initialised.'' None), w)"
    if n: "session_maker self = None" and e: "engines_created w1 = engines_created w0"
  proof -
    have "self1 = self" using b b0 e by simp
    moreover have "\<exists>e. r = Inl e" using ret e by (cases r) auto
    ultimately show ?thesis using n by (simp add: get_session_without_factory)
  qed
  have some: "session_maker self1 = Some (Sessionmaker (last (engines_created w1)))
            \<and> (\<forall>session.
                  sessionmaker_call env w (Sessionmaker (last (engines_created w1))) = Inr session
                  \<longrightarrow> get_session env body self1 w =
                      session_scope env body session
                        (w @ [Session_new (Sessionmaker (last (engines_created w1)))]))"
    if e: "engines_created w1 \<noteq> engines_created w0"
  proof -
    have "bs \<noteq> []" using b e by auto
    then have "session_maker self1 = Some (Sessionmaker (last (engines_created w1)))"
      using b b1 by auto
    then show ?thesis by (simp add: get_session_def)
  qed
  show ?thesis
  proof (intro conjI impI)
    show "get_session env body (new_DatabaseConnection d h p t) w =
           (Some (DatabaseConnectionError ''Database connection not initialised.'' None), w)"
      by (rule a)
  next
    assume "session_maker self = None \<and> engines_created w1 = engines_created w0"
    then show "\<exists>e. r = Inl e" using none by blast
  next
    assume "session_maker self = None \<and> engines_created w1 = engines_created w0"
    then show "get_session env body self1 w =
                (Some (DatabaseConnectionError ''Database connection not initialised.'' None), w)"
      using none by blast
  next
    assume "engines_created w1 \<noteq> engines_created w0"
    then show "session_maker self1 = Some (Sessionmaker (last (engines_created w1)))"
      using some by blast
  next
    assume "engines_created w1 \<noteq> engines_created w0"
    then show "\<forall>session.
                  sessionmaker_call env w (Sessionmaker (last (engines_created w1))) = Inr session
                  \<longrightarrow> get_session env body self1 w =
                      session_scope env body session
                        (w @ [Session_new (Sessionmaker (last (engines_created w1)))])"
      using some by blast
  next
    assume "r = Inr ()"
    then show "engines_created w1 \<noteq> engines_created w0"
      using ret by blast
  qed
qed

theorem get_session_needs_factory_witness:
  "get_session env_ok session_pass (new_DatabaseConnection ''test_db'' ''test_host'' 1433 30) [] =
     (Some (DatabaseConnectionError ''Database connection not initialised.'' None), [])
   \<and> get_session env_create_fails session_pass
        (fst (snd (init_connection env_create_fails test_connection []))) [] =
       (Some (DatabaseConnectionError ''Database connection not initialised.'' None), [])
   \<and> get_session env_probe_fails session_pass
        (fst (snd (init_connection env_probe_fails test_connection []))) [] =
       session_scope env_probe_fails session_pass 0 [Session_new (Sessionmaker 0)]
   \<and> get_session env_ok session_pass
        (fst (snd (init_connection env_ok test_connection []))) [] =
       session_scope env_ok session_pass 0 [Session_new (Sessionmaker 0)]"
proof -
  have n: "session_maker test_connection = None"
    by (simp add: test_connection_def new_DatabaseConnection_def)
  obtain u1 where r1: "init_connection env_create_fails test_connection [] =
          (Inl (DatabaseConnectionError ''Failed to connect to database: mock error''
                  (Some (OperationalError ''mock error''))),
           test_connection, u1)"
    and e1: "engines_created u1 = []"
    using env_create_fails_init by blast
  obtain u2 where r2: "init_connection env_probe_fails test_connection [] =
          (Inl (DatabaseConnectionError ''Failed to connect to database: mock error''
                  (Some (OperationalError ''mock error''))),
           connected_connection, u2)"
    and e2: "engines_created u2 = [0, 0, 0]"
    using env_probe_fails_init by blast
  obtain u3 where r3: "init_connection env_ok test_connection [] = (Inr (), connected_connection, u3)"
    and e3: "engines_created u3 = [0]"
    using env_ok_init by (simp add: engines_created_def)
  have z: "engines_created [] = []"
    by (simp add: engines_created_def)
  have s2: "sessionmaker_call env_probe_fails [] (Sessionmaker 0) = Inr 0"
    by (simp add: env_probe_fails_def env_ok_def)
  have s3: "sessionmaker_call env_ok [] (Sessionmaker 0) = Inr 0"
    by (simp add: env_ok_def)
  note g1 = get_session_needs_factory [OF r1, where body = session_pass and w = "[]"
      and d = "''test_db''" and h = "''test_host''" and p = 1433 and t = 30]
  note g2 = get_session_needs_factory [OF r2, where body = session_pass and w = "[]"
      and d = "''test_db''" and h = "''test_host''" and p = 1433 and t = 30]
  note g3 = get_session_needs_factory [OF r3, where body = session_pass and w = "[]"
      and d = "''test_db''" and h = "''test_host''" and p = 1433 and t = 30]
  have a: "get_session env_ok session_pass (new_DatabaseConnection ''test_db'' ''test_host'' 1433 30) [] =
     (Some (DatabaseConnectionError ''Database connection not initialised.'' None), [])"
    using g3 by (elim conjE)
  have b: "get_session env_create_fails session_pass test_connection [] =
       (Some (DatabaseConnectionError ''Database connection not initialised.'' None), [])"
    using g1 n by (simp add: e1 z)
  have c: "get_session env_probe_fails session_pass connected_connection [] =
       session_scope env_probe_fails session_pass 0 [Session_new (Sessionmaker 0)]"
    using g2 s2 by (simp add: e2 z)
  have d: "get_session env_ok session_pass connected_connection [] =
       session_scope env_ok session_pass 0 [Session_new (Sessionmaker 0)]"
    using g3 s3 by (simp add: e3 z)
  show ?thesis using a b c d r1 r2 r3 by simp
qed

text \<open>
  After an initialisation that failed at the probe, \<^verbatim>\<open>get_session\<close> does not raise: it
  creates a session from the factory that the failed attempt stored, commits and closes.
\<close>

theorem failed_probe_issues_session_counterexample:
  "fst (init_connection env_probe_fails test_connection []) =
     Inl (DatabaseConnectionError ''Failed to connect to database: mock error''
            (Some (OperationalError ''mock error'')))
   \<and> get_session env_probe_fails session_pass
        (fst (snd (init_connection env_probe_fails test_connection []))) [] =
       (None, [Session_new (Sessionmaker 0), Commit 0, Close 0])"
proof -
  have "get_session env_probe_fails session_pass connected_connection [] =
     (None, [Session_new (Sessionmaker 0), Commit 0, Close 0])"
    by (simp add: get_session_def session_scope_def session_finally_def env_probe_fails_def
        env_ok_def session_pass_def connected_connection_def)
  then show ?thesis using env_probe_fails_init by auto
qed

section \<open>Closing the connection\<close>

text \<open>
  What \<^verbatim>\<open>_close\<close> does do: nothing without an engine, one call of \<^verbatim>\<open>dispose()\<close> with
  one, whose exception it passes on, and nothing more when it is called again after
  it returned.
\<close>

lemma close_without_engine: "engine self = None \<Longrightarrow> close env self w = (None, self, w)"
  by (simp add: close_def)

lemma close_raises:
  "engine self = Some eng \<Longrightarrow> engine_dispose env w eng = Some e \<Longrightarrow>
   close env self w = (Some e, self, w @ [Engine_dispose eng])"
  by (simp add: close_def)

lemma close_disposes_once:
  "disposals (snd (snd (close env self w))) =
     disposals w @ (case engine self of None \<Rightarrow> [] | Some eng \<Rightarrow> [eng])"
  by (simp add: close_def disposals_def split: option.splits)

lemma close_twice:
  "fst (close env self w) = None \<Longrightarrow>
   close env (fst (snd (close env self w))) (snd (snd (close env self w))) =
     (None, fst (snd (close env self w)), snd (snd (close env self w)))"
  by (auto simp: close_def split: option.splits)

text \<open>
  C2. After \<^verbatim>\<open>__init__\<close>, a successful \<^verbatim>\<open>_init_connection\<close> and \<^verbatim>\<open>_close\<close>, the engine is
  None and the session factory is still set: the two are not null together.
\<close>

theorem session_maker_survives_close:
  "engine (fst (snd (close env_ok (fst (snd (init_connection env_ok test_connection [])))
                       (snd (snd (init_connection env_ok test_connection [])))))) = None
   \<and> session_maker (fst (snd (close env_ok (fst (snd (init_connection env_ok test_connection [])))
                                 (snd (snd (init_connection env_ok test_connection [])))))) =
       Some (Sessionmaker 0)"
  by (simp add: env_ok_init) (simp add: close_def connected_connection_def env_ok_def)

text \<open>
  C4. \<^verbatim>\<open>_close\<close> on a connected object disposes the engine and resets it to None, and
  leaves the session factory as it was.
\<close>

theorem close_keeps_session_maker:
  "close env_ok connected_connection [] =
     (None, test_connection\<lparr>session_maker := Some (Sessionmaker 0)\<rparr>,
      [Engine_dispose 0, Print ''INFO: Database connection closed.''])
   \<and> engine (fst (snd (close env_ok connected_connection []))) = None
   \<and> session_maker (fst (snd (close env_ok connected_connection []))) = Some (Sessionmaker 0)"
  by (simp add: close_def connected_connection_def test_connection_def new_DatabaseConnection_def
      env_ok_def)

section \<open>The factory get_connection\<close>

text \<open>
  C1, as the code has it. \<^verbatim>\<open>get_connection\<close> builds the object and initialises it. When
  the initialisation raises, that error leaves \<^verbatim>\<open>get_connection\<close> at once, with the
  object and the trace as the initialisation left them: the caller's block is not run
  and \<^verbatim>\<open>_close\<close> is not called. When it returns, the block is run and then \<^verbatim>\<open>_close\<close> is
  called once, whatever the block's outcome: the engine that the object holds after the
  block, if any, is disposed once. When \<^verbatim>\<open>dispose()\<close> returns, the engine is reset and
  the block's outcome, its error or its normal end, is passed on unchanged; when
  \<^verbatim>\<open>dispose()\<close> raises, its exception takes the place of the block's outcome and the
  engine stays set.
\<close>

theorem get_connection_teardown:
  assumes "init_connection env (new_DatabaseConnection d h p t) w = (r0, c1, w1)"
      and "body c1 w1 = (rb, c2, w2)"
  shows "(\<forall>e. r0 = Inl e \<longrightarrow> get_connection env body d h p t w = (Some e, c1, w1))
       \<and> (r0 = Inr () \<longrightarrow>
            snd (snd (get_connection env body d h p t w)) =
              w2 @ unexpected_error_report rb
                 @ (case engine c2 of
                      None \<Rightarrow> []
                    | Some eng \<Rightarrow>
                        Engine_dispose eng
                        # (case engine_dispose env (w2 @ unexpected_error_report rb) eng of
                             None \<Rightarrow> [Print ''INFO: Database connection closed.'']
                           | Some e \<Rightarrow> []))
            \<and> fst (get_connection env body d h p t w) =
                (case engine c2 of
                   None \<Rightarrow> rb
                 | Some eng \<Rightarrow>
                     (case engine_dispose env (w2 @ unexpected_error_report rb) eng of
                        None \<Rightarrow> rb
                      | Some e \<Rightarrow> Some e))
            \<and> fst (snd (get_connection env body d h p t w)) =
                (case engine c2 of
                   None \<Rightarrow> c2
                 | Some eng \<Rightarrow>
                     (case engine_dispose env (w2 @ unexpected_error_report rb) eng of
                        None \<Rightarrow> c2\<lparr>engine := None\<rparr>
                      | Some e \<Rightarrow> c2)))"
  using assms
  by (simp add: get_connection_def close_def split: option.splits)

theorem get_connection_teardown_witness:
  "get_connection env_no_driver connection_raise ''test_db'' ''test_host'' 1433 30 [] =
     (Some (DatabaseConnectionError ''No supported ODBC driver found.'' None),
      test_connection, [Drivers_called])
   \<and> fst (get_connection env_ok connection_raise ''test_db'' ''test_host'' 1433 30 []) =
       Some (OtherException ''ValueError'' ''Test error'')
   \<and> engine (fst (snd (get_connection env_ok connection_raise ''test_db'' ''test_host'' 1433 30 []))) = None
   \<and> disposals (snd (snd (get_connection env_ok connection_raise ''test_db'' ''test_host'' 1433 30 []))) = [0]
   \<and> fst (get_connection env_dispose_fails connection_raise ''test_db'' ''test_host'' 1433 30 []) =
       Some (OperationalError ''dispose failed'')
   \<and> engine (fst (snd (get_connection env_dispose_fails connection_raise
                          ''test_db'' ''test_host'' 1433 30 []))) = Some 0
   \<and> disposals (snd (snd (get_connection env_dispose_fails connection_raise
                             ''test_db'' ''test_host'' 1433 30 []))) = [0]"
proof -
  have i1: "init_connection env_no_driver (new_DatabaseConnection ''test_db'' ''test_host'' 1433 30) [] =
      (Inl (DatabaseConnectionError ''No supported ODBC driver found.'' None),
       test_connection, [Drivers_called])"
    using env_no_driver_init by (simp add: test_connection_def)
  have b1: "connection_raise test_connection [Drivers_called] =
      (Some (OtherException ''ValueError'' ''Test error''), test_connection, [Drivers_called])"
    by (simp add: connection_raise_def)
  obtain u where i2: "init_connection env_ok (new_DatabaseConnection ''test_db'' ''test_host'' 1433 30) [] =
      (Inr (), connected_connection, u)" and d: "disposals u = []"
    using env_ok_init by (simp add: test_connection_def disposals_def)
  have i3: "init_connection env_dispose_fails (new_DatabaseConnection ''test_db'' ''test_host'' 1433 30) [] =
      (Inr (), connected_connection, u)"
    using i2 env_dispose_fails_init by (simp add: test_connection_def)
  have b2: "connection_raise connected_connection u =
      (Some (OtherException ''ValueError'' ''Test error''), connected_connection, u)"
    by (simp add: connection_raise_def)
  have e: "engine connected_connection = Some 0"
    by (simp add: connected_connection_def)
  have k: "\<And>v. engine_dispose env_ok v 0 = None"
    "\<And>v. engine_dispose env_dispose_fails v 0 = Some (OperationalError ''dispose failed'')"
    by (simp_all add: env_dispose_fails_def env_ok_def)
  note g1 = get_connection_teardown [where body = connection_raise, OF i1 b1]
  note g2 = get_connection_teardown [where body = connection_raise, OF i2 b2]
  note g3 = get_connection_teardown [where body = connection_raise, OF i3 b2]
  show ?thesis
    using g1 g2 g3 d by (simp add: e k unexpected_error_report_def disposals_def)
qed

text \<open>
  The probe fails in all three attempts: \<^verbatim>\<open>get_connection\<close> raises, the object still
  holds the engine, and no engine was disposed.
\<close>

theorem init_failure_skips_close_counterexample:
  "fst (get_connection env_probe_fails connection_pass ''test_db'' ''test_host'' 1433 30 []) =
     Some (DatabaseConnectionError ''Failed to connect to database: mock error''
             (Some (OperationalError ''mock error'')))
   \<and> engine (fst (snd (get_connection env_probe_fails connection_pass
                          ''test_db'' ''test_host'' 1433 30 []))) = Some 0
   \<and> disposals (snd (snd (get_connection env_probe_fails connection_pass
                             ''test_db'' ''test_host'' 1433 30 []))) = []"
  using env_probe_fails_init
  by (auto simp: get_connection_def test_connection_def [symmetric] connected_connection_def)

section \<open>The session scope\<close>

text \<open>The \<^verbatim>\<open>finally\<close> and the \<^verbatim>\<open>except\<close> clause: what they add to the trace and what leaves them.\<close>

lemma session_finally_trace: "snd (session_finally env s pending w) = w @ [Close s]"
  by (simp add: session_finally_def split: option.splits)

lemma session_finally_result:
  "fst (session_finally env s pending w) =
     (case session_close env w s of Some e \<Rightarrow> Some e | None \<Rightarrow> pending)"
  by (simp add: session_finally_def split: option.splits)

lemma session_except_trace:
  "is_Exception e \<Longrightarrow>
   snd (session_except env s e w) =
     w @ [Rollback s]
       @ (if session_rollback env w s = None
          then [Print (''ERROR: Database session failed to commit: '' @ str_exn e)] else [])
       @ [Close s]"
  by (simp add: session_except_def session_finally_trace split: option.splits)

lemma session_except_result:
  "is_Exception e \<Longrightarrow>
   fst (session_except env s e w) =
     (case session_rollback env w s of
        Some e1 \<Rightarrow>
          (case session_close env (w @ [Rollback s]) s of Some e2 \<Rightarrow> Some e2 | None \<Rightarrow> Some e1)
      | None \<Rightarrow>
          (case session_close env
                  (w @ [Rollback s,
                        Print (''ERROR: Database session failed to commit: '' @ str_exn e)]) s of
             Some e2 \<Rightarrow> Some e2 | None \<Rightarrow> Some e))"
  by (simp add: session_except_def session_finally_result split: option.splits)

text \<open>
  C8, as the code has it. When the caller's block raises an error \<open>e\<close> (an Exception),
  the scope calls \<^verbatim>\<open>rollback()\<close> once and then \<^verbatim>\<open>close()\<close> once, after whatever the block
  did, with the error message printed in between when the rollback returned. The
  exception that reaches the caller is \<open>e\<close> itself when rollback and close both return
  normally; an exception raised by \<^verbatim>\<open>rollback()\<close> takes its place, and one raised by
  \<^verbatim>\<open>close()\<close> takes the place of either.
\<close>

theorem body_error_rolled_back:
  assumes "body session w = (Some e, w1)" and "is_Exception e"
  shows "snd (session_scope env body session w) =
           w1 @ [Rollback session]
              @ (if session_rollback env w1 session = None
                 then [Print (''ERROR: Database session failed to commit: '' @ str_exn e)]
                 else [])
              @ [Close session]
         \<and> fst (session_scope env body session w) =
           (case session_rollback env w1 session of
              Some e1 \<Rightarrow>
                (case session_close env (w1 @ [Rollback session]) session of
                   Some e2 \<Rightarrow> Some e2 | None \<Rightarrow> Some e1)
            | None \<Rightarrow>
                (case session_close env
                        (w1 @ [Rollback session,
                               Print (''ERROR: Database session failed to commit: '' @ str_exn e)])
                        session of
                   Some e2 \<Rightarrow> Some e2 | None \<Rightarrow> Some e))"
  using assms by (simp add: session_scope_def session_except_trace session_except_result)

theorem body_error_rolled_back_witness:
  "session_raise 0 [] = (Some (OtherException ''ValueError'' ''Test error''), [])
   \<and> is_Exception (OtherException ''ValueError'' ''Test error'')
   \<and> session_scope env_ok session_raise 0 [] =
       (Some (OtherException ''ValueError'' ''Test error''),
        [Rollback 0, Print ''ERROR: Database session failed to commit: Test error'', Close 0])"
proof -
  have b: "session_raise 0 [] = (Some (OtherException ''ValueError'' ''Test error''), [])"
    by (simp add: session_raise_def)
  have x: "is_Exception (OtherException ''ValueError'' ''Test error'')" by simp
  show ?thesis
    using b x
      body_error_rolled_back [where body = session_raise and session = 0 and w = "[]"
        and e = "OtherException ''ValueError'' ''Test error''" and ?w1.0 = "[]" and env = env_ok]
    by (simp add: env_ok_def prod_eq_iff)
qed

text \<open>
  The block raises ValueError("Test error") and the rollback raises an OperationalError:
  the caller receives the OperationalError, not the ValueError.
\<close>

theorem body_error_replaced_counterexample:
  "get_session env_rollback_fails session_raise connected_connection [] =
     (Some (OperationalError ''rollback failed''),
      [Session_new (Sessionmaker 0), Rollback 0, Close 0])"
  by (simp add: get_session_def session_scope_def session_except_def session_finally_def
      env_rollback_fails_def env_ok_def session_raise_def connected_connection_def
      test_connection_def new_DatabaseConnection_def)

text \<open>
  C9, as the code has it. When the caller's block completes without an error and
  \<^verbatim>\<open>commit()\<close> returns normally, the scope calls \<^verbatim>\<open>commit()\<close> once and then
  \<^verbatim>\<open>close()\<close> once, and never \<^verbatim>\<open>rollback()\<close>; the scope's outcome is that of the close.
\<close>

theorem commit_then_close:
  assumes "body session w = (None, w1)" and "session_commit env w1 session = None"
  shows "session_scope env body session w =
           (session_close env (w1 @ [Commit session]) session,
            w1 @ [Commit session, Close session])"
  using assms by (simp add: session_scope_def session_finally_def split: option.splits)

theorem commit_then_close_witness:
  "session_pass 0 [] = (None, []) \<and> session_commit env_ok [] 0 = None
   \<and> session_scope env_ok session_pass 0 [] = (None, [Commit 0, Close 0])"
proof -
  have b: "session_pass 0 [] = (None, [])" by (simp add: session_pass_def)
  have c: "session_commit env_ok [] 0 = None" by (simp add: env_ok_def)
  show ?thesis
    using b c
      commit_then_close [where body = session_pass and session = 0 and w = "[]"
        and ?w1.0 = "[]" and env = env_ok]
    by (simp add: env_ok_def)
qed

text \<open>
  The block completes without an error and the commit raises: the session is rolled
  back once, between the commit and the close.
\<close>

theorem commit_failure_rollback_counterexample:
  "get_session env_commit_fails session_pass connected_connection [] =
     (Some (OperationalError ''commit failed''),
      [Session_new (Sessionmaker 0), Commit 0, Rollback 0,
       Print ''ERROR: Database session failed to commit: commit failed'', Close 0])"
  by (simp add: get_session_def session_scope_def session_except_def session_finally_def
      env_commit_fails_def env_ok_def session_pass_def connected_connection_def
      test_connection_def new_DatabaseConnection_def)

text \<open>
  C10, as the code has it. When the caller's block completes without an error and
  \<^verbatim>\<open>commit()\<close> raises an error \<open>e\<close> (an Exception), the scope calls \<^verbatim>\<open>rollback()\<close>
  once and then \<^verbatim>\<open>close()\<close> once. The caller receives \<open>e\<close> when rollback and close both
  return normally; an exception raised by \<^verbatim>\<open>rollback()\<close> takes its place, and one raised
  by \<^verbatim>\<open>close()\<close> takes the place of either.
\<close>

theorem commit_error_rolled_back:
  assumes "body session w = (None, w1)"
      and "session_commit env w1 session = Some e" and "is_Exception e"
  shows "snd (session_scope env body session w) =
           w1 @ [Commit session, Rollback session]
              @ (if session_rollback env (w1 @ [Commit session]) session = None
                 then [Print (''ERROR: Database session failed to commit: '' @ str_exn e)]
                 else [])
              @ [Close session]
         \<and> fst (session_scope env body session w) =
           (case session_rollback env (w1 @ [Commit session]) session of
              Some e1 \<Rightarrow>
                (case session_close env (w1 @ [Commit session, Rollback session]) session of
                   Some e2 \<Rightarrow> Some e2 | None \<Rightarrow> Some e1)
            | None \<Rightarrow>
                (case session_close env
                        (w1 @ [Commit session, Rollback session,
                               Print (''ERROR: Database session failed to commit: '' @ str_exn e)])
                        session of
                   Some e2 \<Rightarrow> Some e2 | None \<Rightarrow> Some e))"
  using assms
  by (simp add: session_scope_def session_except_trace session_except_result
      cong: option.case_cong)

theorem commit_error_rolled_back_witness:
  "session_pass 0 [] = (None, [])
   \<and> session_commit env_commit_fails [] 0 = Some (OperationalError ''commit failed'')
   \<and> is_Exception (OperationalError ''commit failed'')
   \<and> session_scope env_commit_fails session_pass 0 [] =
       (Some (OperationalError ''commit failed''),
        [Commit 0, Rollback 0,
         Print ''ERROR: Database session failed to commit: commit failed'', Close 0])"
proof -
  have b: "session_pass 0 [] = (None, [])" by (simp add: session_pass_def)
  have c: "session_commit env_commit_fails [] 0 = Some (OperationalError ''commit failed'')"
    by (simp add: env_commit_fails_def env_ok_def)
  have x: "is_Exception (OperationalError ''commit failed'')" by simp
  show ?thesis
    using b c x
      commit_error_rolled_back [where body = session_pass and session = 0 and w = "[]"
        and ?w1.0 = "[]" and env = env_commit_fails and e = "OperationalError ''commit failed''"]
    by (simp add: env_commit_fails_def env_ok_def prod_eq_iff)
qed

text \<open>
  The commit raises and then the rollback raises too (the connection is lost, say): the
  caller receives the error of the rollback, not that of the commit.
\<close>

theorem commit_error_replaced_counterexample:
  "get_session env_commit_rollback_fail session_pass connected_connection [] =
     (Some (OperationalError ''rollback failed''),
      [Session_new (Sessionmaker 0), Commit 0, Rollback 0, Close 0])"
  by (simp add: get_session_def session_scope_def session_except_def session_finally_def
      env_commit_rollback_fail_def env_commit_fails_def env_ok_def session_pass_def
      connected_connection_def test_connection_def new_DatabaseConnection_def)

end
